theory Spec2Isabelle
  imports Main "HOL-Library.Word" "HOL-Library.Log_Nat"
begin

unbundle bit_operations_syntax

section \<open>Wire framer: pkg/protocol (ReadPacket, WritePacket)\<close>

text \<open>
  A Go \<^verbatim>\<open>byte\<close> is an 8-bit word, \<^verbatim>\<open>uint32\<close> a 32-bit word. An \<^verbatim>\<open>io.Reader\<close> is
  modelled by the list of bytes it still has to deliver, an \<^verbatim>\<open>io.Writer\<close> by the list
  of bytes written so far (an in-memory buffer, whose writes do not fail).
\<close>

type_synonym byte = "8 word"
type_synonym uint32 = "32 word"

datatype io_error = EOF | ErrUnexpectedEOF | PacketTooLarge nat

record Packet =
  Length :: uint32
  SequenceID :: byte
  Payload :: "byte list"

text \<open>
  \<^verbatim>\<open>io.ReadFull(r, buf)\<close> with \<^verbatim>\<open>len(buf) = n\<close>: fills the buffer or fails, with
  \<^verbatim>\<open>EOF\<close> when no byte could be read and \<^verbatim>\<open>ErrUnexpectedEOF\<close> when the stream ended
  inside the buffer.
\<close>

definition ReadFull :: "nat \<Rightarrow> byte list \<Rightarrow> io_error + (byte list \<times> byte list)" where
  "ReadFull n r =
     (if n \<le> length r then Inr (take n r, drop n r)
      else if r = [] then Inl EOF
      else Inl ErrUnexpectedEOF)"

definition ReadPacket :: "byte list \<Rightarrow> io_error + (Packet \<times> byte list)" where
  "ReadPacket r =
     (case ReadFull 4 r of
        Inl e \<Rightarrow> Inl e
      | Inr (header, r1) \<Rightarrow>
          (let length32 = (ucast (header ! 0) :: uint32)
                            OR push_bit 8 (ucast (header ! 1) :: uint32)
                            OR push_bit 16 (ucast (header ! 2) :: uint32);
               sequenceID = header ! 3
           in case ReadFull (unat length32) r1 of
                Inl e \<Rightarrow> Inl e
              | Inr (payload, r2) \<Rightarrow>
                  Inr (\<lparr>Length = length32, SequenceID = sequenceID, Payload = payload\<rparr>, r2)))"

definition WritePacket :: "byte list \<Rightarrow> byte \<Rightarrow> byte list \<Rightarrow> io_error + byte list" where
  "WritePacket w sequenceID payload =
     (let len = length payload
      in if len > 16777215 then Inl (PacketTooLarge len)
         else
           (let header = [of_nat len, of_nat (drop_bit 8 len), of_nat (drop_bit 16 len), sequenceID]
            in Inr ((w @ header) @ payload)))"

section \<open>Circuit breaker: internal/proxy (circuit_breaker.go)\<close>

text \<open>
  \<^verbatim>\<open>time.Time\<close> and \<^verbatim>\<open>time.Duration\<close> are integers (nanoseconds); every operation
  that reads the clock takes the reading as its argument \<open>now\<close>. The metric counters are
  \<^verbatim>\<open>uint64\<close> and wrap around. The mutex is not modelled: each operation below is one
  critical section of the source.
\<close>

datatype CircuitBreakerState = StateClosed | StateOpen | StateHalfOpen

record CircuitBreakerConfig =
  MaxFailures :: int
  Timeout :: int
  MaxRequests :: int

record CircuitBreaker =
  config :: CircuitBreakerConfig
  state :: CircuitBreakerState
  failures :: int
  lastFailureTime :: int
  lastStateChange :: int
  halfOpenRequests :: int
  totalRequests :: "64 word"
  totalSuccesses :: "64 word"
  totalFailures :: "64 word"
  totalRejections :: "64 word"

datatype 'e cb_error = ErrCircuitBreakerOpen | FnError 'e

definition DefaultCircuitBreakerConfig :: CircuitBreakerConfig where
  "DefaultCircuitBreakerConfig =
     \<lparr>MaxFailures = 5, Timeout = 30 * 1000000000, MaxRequests = 3\<rparr>"

text \<open>The zero \<^verbatim>\<open>time.Time\<close> of the unset \<^verbatim>\<open>lastFailureTime\<close> is the parameter \<open>zeroTime\<close>.\<close>

definition NewCircuitBreaker :: "CircuitBreakerConfig \<Rightarrow> int \<Rightarrow> int \<Rightarrow> CircuitBreaker" where
  "NewCircuitBreaker cfg zeroTime now =
     \<lparr>config = cfg, state = StateClosed, failures = 0, lastFailureTime = zeroTime,
      lastStateChange = now, halfOpenRequests = 0,
      totalRequests = 0, totalSuccesses = 0, totalFailures = 0, totalRejections = 0\<rparr>"

definition setState :: "int \<Rightarrow> CircuitBreakerState \<Rightarrow> CircuitBreaker \<Rightarrow> CircuitBreaker" where
  "setState now s cb =
     (if state cb \<noteq> s then cb\<lparr>state := s, lastStateChange := now\<rparr> else cb)"

definition beforeRequest :: "int \<Rightarrow> CircuitBreaker \<Rightarrow> 'e cb_error option \<times> CircuitBreaker" where
  "beforeRequest now cb0 =
     (let cb = cb0\<lparr>totalRequests := totalRequests cb0 + 1\<rparr>
      in case state cb of
           StateClosed \<Rightarrow> (None, cb)
         | StateOpen \<Rightarrow>
             (if now - lastFailureTime cb > Timeout (config cb)
              then (None, (setState now StateHalfOpen cb)\<lparr>halfOpenRequests := 0\<rparr>)
              else (Some ErrCircuitBreakerOpen, cb\<lparr>totalRejections := totalRejections cb + 1\<rparr>))
         | StateHalfOpen \<Rightarrow>
             (if halfOpenRequests cb \<ge> MaxRequests (config cb)
              then (Some ErrCircuitBreakerOpen, cb\<lparr>totalRejections := totalRejections cb + 1\<rparr>)
              else (None, cb\<lparr>halfOpenRequests := halfOpenRequests cb + 1\<rparr>)))"

definition onSuccess :: "int \<Rightarrow> CircuitBreaker \<Rightarrow> CircuitBreaker" where
  "onSuccess now cb0 =
     (let cb = cb0\<lparr>totalSuccesses := totalSuccesses cb0 + 1\<rparr>
      in case state cb of
           StateClosed \<Rightarrow> (if failures cb > 0 then cb\<lparr>failures := 0\<rparr> else cb)
         | StateHalfOpen \<Rightarrow>
             (if halfOpenRequests cb \<ge> MaxRequests (config cb)
              then (setState now StateClosed cb)\<lparr>failures := 0, halfOpenRequests := 0\<rparr>
              else cb)
         | StateOpen \<Rightarrow> cb)"

definition onFailure :: "int \<Rightarrow> CircuitBreaker \<Rightarrow> CircuitBreaker" where
  "onFailure now cb0 =
     (let cb = cb0\<lparr>totalFailures := totalFailures cb0 + 1,
                     failures := failures cb0 + 1,
                     lastFailureTime := now\<rparr>
      in case state cb of
           StateClosed \<Rightarrow>
             (if failures cb \<ge> MaxFailures (config cb) then setState now StateOpen cb else cb)
         | StateHalfOpen \<Rightarrow> setState now StateOpen cb
         | StateOpen \<Rightarrow> cb)"

definition afterRequest :: "int \<Rightarrow> 'e option \<Rightarrow> CircuitBreaker \<Rightarrow> CircuitBreaker" where
  "afterRequest now err cb =
     (case err of Some e \<Rightarrow> onFailure now cb | None \<Rightarrow> onSuccess now cb)"

text \<open>
  \<^verbatim>\<open>Call(fn)\<close>: the protected function acts on a world \<open>'w\<close> (for the pool: the
  network, where it dials) and returns its error or \<open>None\<close>. \<open>now\<close> is the clock at
  \<^verbatim>\<open>beforeRequest\<close>, \<open>now'\<close> the clock at \<^verbatim>\<open>afterRequest\<close>.
\<close>

definition Call ::
  "int \<Rightarrow> int \<Rightarrow> ('w \<Rightarrow> 'e option \<times> 'w) \<Rightarrow> CircuitBreaker \<times> 'w
     \<Rightarrow> 'e cb_error option \<times> CircuitBreaker \<times> 'w" where
  "Call now now' fn s =
     (case beforeRequest now (fst s) of
        (Some e, cb1) \<Rightarrow> (Some e, cb1, snd s)
      | (None, cb1) \<Rightarrow>
          (case fn (snd s) of
             (err, w') \<Rightarrow> (map_option FnError err, afterRequest now' err cb1, w')))"

definition Reset :: "int \<Rightarrow> CircuitBreaker \<Rightarrow> CircuitBreaker" where
  "Reset now cb = cb\<lparr>state := StateClosed, failures := 0, halfOpenRequests := 0,
                      lastStateChange := now\<rparr>"

text \<open>A sequence of completed calls, one after the other (no call in flight).\<close>

fun Calls ::
  "(int \<times> int \<times> ('w \<Rightarrow> 'e option \<times> 'w)) list \<Rightarrow> CircuitBreaker \<times> 'w \<Rightarrow> CircuitBreaker \<times> 'w" where
  "Calls [] s = s"
| "Calls ((now, now', fn) # cs) s = Calls cs (snd (Call now now' fn s))"


section \<open>Framer round trip\<close>

lemma header_length_decode:
  assumes "n < 2 ^ 24"
  shows "(ucast (of_nat n :: byte) :: uint32)
           OR push_bit 8 (ucast (of_nat (drop_bit 8 n) :: byte) :: uint32)
           OR push_bit 16 (ucast (of_nat (drop_bit 16 n) :: byte) :: uint32)
         = of_nat n"
proof (rule bit_eqI)
  fix k
  assume "possible_bit TYPE(uint32) k"
  then have k32: "k < 32" by (simp add: possible_bit_word)
  have hi: "\<not> bit n k" if "24 \<le> k"
  proof -
    have "n < 2 ^ k"
      using assms that by (meson less_le_trans one_le_numeral power_increasing)
    then show ?thesis by (simp add: bit_iff_odd)
  qed
  consider "k < 8" | "8 \<le> k" "k < 16" | "16 \<le> k" "k < 24" | "24 \<le> k" by linarith
  then show "bit ((ucast (of_nat n :: byte) :: uint32)
           OR push_bit 8 (ucast (of_nat (drop_bit 8 n) :: byte) :: uint32)
           OR push_bit 16 (ucast (of_nat (drop_bit 16 n) :: byte) :: uint32)) k
        \<longleftrightarrow> bit (of_nat n :: uint32) k"
  proof cases
    case 1 then show ?thesis using k32 by (auto simp add: bit_simps bit_of_nat_iff)
  next
    case 2 then show ?thesis using k32 by (auto simp add: bit_simps bit_of_nat_iff)
  next
    case 3 then show ?thesis using k32 by (auto simp add: bit_simps bit_of_nat_iff)
  next
    case 4 then show ?thesis using k32 hi by (auto simp add: bit_simps bit_of_nat_iff)
  qed
qed

lemma unat_length32:
  assumes "n < 2 ^ 24"
  shows "unat (of_nat n :: uint32) = n"
proof -
  have "n < 2 ^ 32"
    using assms by (rule less_trans) simp
  then show ?thesis by (simp add: unsigned_of_nat take_bit_nat_eq_self)
qed

lemma ReadPacket_WritePacket:
  assumes "length p \<le> 16777215"
  shows "WritePacket [] s p = Inr ([of_nat (length p), of_nat (drop_bit 8 (length p)),
                                     of_nat (drop_bit 16 (length p)), s] @ p)"
    and "ReadPacket ([of_nat (length p), of_nat (drop_bit 8 (length p)),
                      of_nat (drop_bit 16 (length p)), s] @ p)
         = Inr (\<lparr>Length = of_nat (length p), SequenceID = s, Payload = p\<rparr>, [])"
proof -
  from assms have n: "length p < 2 ^ 24" by simp
  show "WritePacket [] s p = Inr ([of_nat (length p), of_nat (drop_bit 8 (length p)),
                                     of_nat (drop_bit 16 (length p)), s] @ p)"
    using assms by (simp add: WritePacket_def Let_def)
  show "ReadPacket ([of_nat (length p), of_nat (drop_bit 8 (length p)),
                      of_nat (drop_bit 16 (length p)), s] @ p)
         = Inr (\<lparr>Length = of_nat (length p), SequenceID = s, Payload = p\<rparr>, [])"
    by (simp add: ReadPacket_def ReadFull_def Let_def
        header_length_decode [OF n] unat_length32 [OF n])
qed

text \<open>
  C9. For every payload \<open>p\<close> of at most \<open>2^24 - 1\<close> bytes and every sequence id \<open>s\<close>,
  \<^verbatim>\<open>WritePacket\<close> succeeds and \<^verbatim>\<open>ReadPacket\<close> on the bytes it wrote returns the packet
  with sequence id \<open>s\<close> and payload \<open>p\<close>, leaving nothing unread; for every longer
  payload \<^verbatim>\<open>WritePacket\<close> returns an error.
\<close>

theorem framer_round_trip:
  "(length p \<le> 2 ^ 24 - 1 \<longrightarrow>
      (\<exists>out. WritePacket [] s p = Inr out \<and>
             ReadPacket out
               = Inr (\<lparr>Length = of_nat (length p), SequenceID = s, Payload = p\<rparr>, []))) \<and>
   (2 ^ 24 - 1 < length p \<longrightarrow> (\<exists>e. WritePacket w s p = Inl e))"
proof (intro conjI impI)
  assume "length p \<le> 2 ^ 24 - 1"
  then have "length p \<le> 16777215" by simp
  from ReadPacket_WritePacket [OF this]
  show "\<exists>out. WritePacket [] s p = Inr out \<and>
             ReadPacket out
               = Inr (\<lparr>Length = of_nat (length p), SequenceID = s, Payload = p\<rparr>, [])"
    by blast
next
  assume "2 ^ 24 - 1 < length p"
  then have "16777215 < length p" by simp
  then show "\<exists>e. WritePacket w s p = Inl e"
    by (simp add: WritePacket_def Let_def)
qed

theorem framer_round_trip_witness:
  "length [1, 2, 3 :: byte] \<le> 2 ^ 24 - 1 \<and>
   (\<exists>out. WritePacket [] 7 [1, 2, 3] = Inr out \<and>
          ReadPacket out = Inr (\<lparr>Length = 3, SequenceID = 7, Payload = [1, 2, 3]\<rparr>, [])) \<and>
   2 ^ 24 - 1 < length (replicate 16777216 (0 :: byte)) \<and>
   (\<exists>e. WritePacket [] 7 (replicate 16777216 0) = Inl e)"
  using framer_round_trip [of "[1, 2, 3]" 7 "[]"]
        framer_round_trip [of "replicate 16777216 0" 7 "[]"]
  by simp

section \<open>Circuit breaker counters\<close>






section \<open>Circuit breaker transitions\<close>

lemma probe_trace_1:
  "Call 0 0 (\<lambda>w :: int. (Some ''connection refused'', w + 1))
     (NewCircuitBreaker \<lparr>MaxFailures = 2, Timeout = 100000000, MaxRequests = 2\<rparr> zeroTime 0, 0)
   = (Some (FnError ''connection refused''),
      \<lparr>config = \<lparr>MaxFailures = 2, Timeout = 100000000, MaxRequests = 2\<rparr>,
       state = StateClosed, failures = 1, lastFailureTime = 0, lastStateChange = 0,
       halfOpenRequests = 0, totalRequests = 1, totalSuccesses = 0, totalFailures = 1,
       totalRejections = 0\<rparr>, 1)"
  by (simp add: Call_def beforeRequest_def afterRequest_def onFailure_def setState_def Let_def
      NewCircuitBreaker_def)

lemma probe_trace_2:
  "Call 0 0 (\<lambda>w :: int. (Some ''connection refused'', w + 1))
     (\<lparr>config = \<lparr>MaxFailures = 2, Timeout = 100000000, MaxRequests = 2\<rparr>,
       state = StateClosed, failures = 1, lastFailureTime = 0, lastStateChange = 0,
       halfOpenRequests = 0, totalRequests = 1, totalSuccesses = 0, totalFailures = 1,
       totalRejections = 0\<rparr>, 1)
   = (Some (FnError ''connection refused''),
      \<lparr>config = \<lparr>MaxFailures = 2, Timeout = 100000000, MaxRequests = 2\<rparr>,
       state = StateOpen, failures = 2, lastFailureTime = 0, lastStateChange = 0,
       halfOpenRequests = 0, totalRequests = 2, totalSuccesses = 0, totalFailures = 2,
       totalRejections = 0\<rparr>, 2)"
  by (simp add: Call_def beforeRequest_def afterRequest_def onSuccess_def onFailure_def
      setState_def Let_def)

lemma probe_trace_3:
  "Call 150000000 150000000 (\<lambda>w :: int. (None :: string option, w + 1))
     (\<lparr>config = \<lparr>MaxFailures = 2, Timeout = 100000000, MaxRequests = 2\<rparr>,
       state = StateOpen, failures = 2, lastFailureTime = 0, lastStateChange = 0,
       halfOpenRequests = 0, totalRequests = 2, totalSuccesses = 0, totalFailures = 2,
       totalRejections = 0\<rparr>, 2)
   = (None,
      \<lparr>config = \<lparr>MaxFailures = 2, Timeout = 100000000, MaxRequests = 2\<rparr>,
       state = StateHalfOpen, failures = 2, lastFailureTime = 0, lastStateChange = 150000000,
       halfOpenRequests = 0, totalRequests = 3, totalSuccesses = 1, totalFailures = 2,
       totalRejections = 0\<rparr>, 3)"
  by (simp add: Call_def beforeRequest_def afterRequest_def onSuccess_def onFailure_def
      setState_def Let_def)

lemma probe_trace_4:
  "Call 150000000 150000000 (\<lambda>w :: int. (None :: string option, w + 1))
     (\<lparr>config = \<lparr>MaxFailures = 2, Timeout = 100000000, MaxRequests = 2\<rparr>,
       state = StateHalfOpen, failures = 2, lastFailureTime = 0, lastStateChange = 150000000,
       halfOpenRequests = 0, totalRequests = 3, totalSuccesses = 1, totalFailures = 2,
       totalRejections = 0\<rparr>, 3)
   = (None,
      \<lparr>config = \<lparr>MaxFailures = 2, Timeout = 100000000, MaxRequests = 2\<rparr>,
       state = StateHalfOpen, failures = 2, lastFailureTime = 0, lastStateChange = 150000000,
       halfOpenRequests = 1, totalRequests = 4, totalSuccesses = 2, totalFailures = 2,
       totalRejections = 0\<rparr>, 4)"
  by (simp add: Call_def beforeRequest_def afterRequest_def onSuccess_def onFailure_def
      setState_def Let_def)

lemma probe_trace_5:
  "Call 150000000 150000000 (\<lambda>w :: int. (None :: string option, w + 1))
     (\<lparr>config = \<lparr>MaxFailures = 2, Timeout = 100000000, MaxRequests = 2\<rparr>,
       state = StateHalfOpen, failures = 2, lastFailureTime = 0, lastStateChange = 150000000,
       halfOpenRequests = 1, totalRequests = 4, totalSuccesses = 2, totalFailures = 2,
       totalRejections = 0\<rparr>, 4)
   = (None,
      \<lparr>config = \<lparr>MaxFailures = 2, Timeout = 100000000, MaxRequests = 2\<rparr>,
       state = StateClosed, failures = 0, lastFailureTime = 0, lastStateChange = 150000000,
       halfOpenRequests = 0, totalRequests = 5, totalSuccesses = 3, totalFailures = 2,
       totalRejections = 0\<rparr>, 5)"
  by (simp add: Call_def beforeRequest_def afterRequest_def onSuccess_def onFailure_def
      setState_def Let_def)

text \<open>
  C6. The configuration of the breaker's own tests (two failures open the circuit, a
  cooldown of 100 ms, \<^verbatim>\<open>MaxRequests: 2\<close>): two failed calls open the circuit; after the
  cooldown the next call is admitted and moves the breaker to half-open without being
  counted in \<^verbatim>\<open>halfOpenRequests\<close>, so after two admitted and successful probes the circuit
  is still half-open, and only the third successful probe closes it.
\<close>

theorem half_open_needs_extra_probe:
  "state (fst (Calls [(0, 0, \<lambda>w :: int. (Some ''connection refused'', w + 1)),
                      (0, 0, \<lambda>w. (Some ''connection refused'', w + 1)),
                      (150000000, 150000000, \<lambda>w. (None, w + 1)),
                      (150000000, 150000000, \<lambda>w. (None, w + 1))]
      (NewCircuitBreaker \<lparr>MaxFailures = 2, Timeout = 100000000, MaxRequests = 2\<rparr> zeroTime 0, 0)))
     = StateHalfOpen \<and>
   state (fst (Calls [(0, 0, \<lambda>w :: int. (Some ''connection refused'', w + 1)),
                      (0, 0, \<lambda>w. (Some ''connection refused'', w + 1)),
                      (150000000, 150000000, \<lambda>w. (None, w + 1)),
                      (150000000, 150000000, \<lambda>w. (None, w + 1)),
                      (150000000, 150000000, \<lambda>w. (None, w + 1))]
      (NewCircuitBreaker \<lparr>MaxFailures = 2, Timeout = 100000000, MaxRequests = 2\<rparr> zeroTime 0, 0)))
     = StateClosed"
  by (simp add: probe_trace_1 probe_trace_2 probe_trace_3 probe_trace_4 probe_trace_5)

end
